theory Spec2Isabelle
  imports Main "HOL-Library.Sublist"
begin

section \<open>JavaScript values and the coercions the source relies on\<close>

text \<open>
  The form renderer stores user input in a \<open>Record<string, unknown>\<close> and compares,
  coerces and prints those values with the language's own operators (\<open>===\<close>,
  \<open>||\<close>, \<open>Number(..)\<close>, \<open>String(..)\<close>, template literals). This section fixes what
  those operators compute on the scalar values a form can hold.

  Numbers are kept as exact decimals \<open>m * 10^e\<close> next to \<open>NaN\<close> and the two
  infinities. Every JSON number literal and every string an input element can deliver is
  such a decimal; the rounding of a literal to 53 bits and the sign of zero are not
  represented. A \<open>char\<close> stands for one code unit of a JavaScript string.
\<close>

datatype jsnum = NaN | PosInf | NegInf | Dec int int

fun num_lt :: "jsnum \<Rightarrow> jsnum \<Rightarrow> bool" where
  "num_lt NaN _ = False"
| "num_lt _ NaN = False"
| "num_lt PosInf _ = False"
| "num_lt _ NegInf = False"
| "num_lt NegInf _ = True"
| "num_lt _ PosInf = True"
| "num_lt (Dec m1 e1) (Dec m2 e2) =
     (let e = min e1 e2 in m1 * 10 ^ nat (e1 - e) < m2 * 10 ^ nat (e2 - e))"

fun num_eq :: "jsnum \<Rightarrow> jsnum \<Rightarrow> bool" where
  "num_eq PosInf PosInf = True"
| "num_eq NegInf NegInf = True"
| "num_eq (Dec m1 e1) (Dec m2 e2) =
     (let e = min e1 e2 in m1 * 10 ^ nat (e1 - e) = m2 * 10 ^ nat (e2 - e))"
| "num_eq _ _ = False"

text \<open>\<open>a <= b\<close> and \<open>a >= b\<close>: false as soon as one side is \<open>NaN\<close>.\<close>

definition num_le :: "jsnum \<Rightarrow> jsnum \<Rightarrow> bool" where
  "num_le a b = (num_lt a b \<or> num_eq a b)"

definition num_gt :: "jsnum \<Rightarrow> jsnum \<Rightarrow> bool" where
  "num_gt a b = num_lt b a"

definition num_ge :: "jsnum \<Rightarrow> jsnum \<Rightarrow> bool" where
  "num_ge a b = num_le b a"

text \<open>\<open>Number.isFinite\<close> (which is false on \<open>NaN\<close> too).\<close>

fun isFinite :: "jsnum \<Rightarrow> bool" where
  "isFinite (Dec _ _) = True"
| "isFinite _ = False"

subsection \<open>Reading a number from a string\<close>

definition is_ws :: "char \<Rightarrow> bool" where
  "is_ws c = (c \<in> set [CHR 0x09, CHR 0x0A, CHR 0x0B, CHR 0x0C, CHR 0x0D, CHR 0x20, CHR 0xA0])"

definition trim :: "string \<Rightarrow> string" where
  "trim s = rev (dropWhile is_ws (rev (dropWhile is_ws s)))"

definition digit_of :: "char \<Rightarrow> nat option" where
  "digit_of c =
     (let n = of_char c :: nat in
      if 48 \<le> n \<and> n \<le> 57 then Some (n - 48)
      else if 97 \<le> n \<and> n \<le> 102 then Some (n - 87)
      else if 65 \<le> n \<and> n \<le> 70 then Some (n - 55)
      else None)"

definition is_radix_digit :: "nat \<Rightarrow> char \<Rightarrow> bool" where
  "is_radix_digit b c = (case digit_of c of None \<Rightarrow> False | Some d \<Rightarrow> d < b)"

definition radix_val :: "nat \<Rightarrow> string \<Rightarrow> int" where
  "radix_val b s = foldl (\<lambda>a c. int b * a + int (the (digit_of c))) 0 s"

definition radix_literal :: "nat \<Rightarrow> string \<Rightarrow> jsnum option" where
  "radix_literal b ds =
     (if ds \<noteq> [] \<and> list_all (is_radix_digit b) ds then Some (Dec (radix_val b ds) 0) else None)"

text \<open>\<open>0x\<close>, \<open>0o\<close> and \<open>0b\<close> literals; they take no sign.\<close>

fun non_decimal_literal :: "string \<Rightarrow> jsnum option" where
  "non_decimal_literal (z # p # ds) =
     (if z \<noteq> CHR ''0'' then None
      else if p = CHR ''x'' \<or> p = CHR ''X'' then radix_literal 16 ds
      else if p = CHR ''o'' \<or> p = CHR ''O'' then radix_literal 8 ds
      else if p = CHR ''b'' \<or> p = CHR ''B'' then radix_literal 2 ds
      else None)"
| "non_decimal_literal _ = None"

definition decimal_digits :: "string \<Rightarrow> int option" where
  "decimal_digits ds =
     (if ds \<noteq> [] \<and> list_all (is_radix_digit 10) ds then Some (radix_val 10 ds) else None)"

fun signed_integer :: "string \<Rightarrow> int option" where
  "signed_integer (c # ds) =
     (if c = CHR ''+'' then decimal_digits ds
      else if c = CHR ''-'' then map_option uminus (decimal_digits ds)
      else decimal_digits (c # ds))"
| "signed_integer [] = None"

fun exponent_part :: "string \<Rightarrow> int option" where
  "exponent_part [] = Some 0"
| "exponent_part (c # r) = (if c = CHR ''e'' \<or> c = CHR ''E'' then signed_integer r else None)"

definition unsigned_decimal_literal :: "string \<Rightarrow> jsnum option" where
  "unsigned_decimal_literal s =
     (if s = ''Infinity'' then Some PosInf
      else
        let ip = takeWhile (is_radix_digit 10) s;
            r1 = dropWhile (is_radix_digit 10) s;
            fp = (case r1 of c # t \<Rightarrow> if c = CHR ''.'' then takeWhile (is_radix_digit 10) t else []
                  | [] \<Rightarrow> []);
            r2 = (case r1 of c # t \<Rightarrow> if c = CHR ''.'' then dropWhile (is_radix_digit 10) t else r1
                  | [] \<Rightarrow> [])
        in if ip = [] \<and> fp = [] then None
           else map_option (\<lambda>x. Dec (radix_val 10 (ip @ fp)) (x - int (length fp)))
                  (exponent_part r2))"

fun num_neg :: "jsnum \<Rightarrow> jsnum" where
  "num_neg NaN = NaN"
| "num_neg PosInf = NegInf"
| "num_neg NegInf = PosInf"
| "num_neg (Dec m e) = Dec (- m) e"

fun decimal_literal :: "string \<Rightarrow> jsnum option" where
  "decimal_literal (c # r) =
     (if c = CHR ''+'' then unsigned_decimal_literal r
      else if c = CHR ''-'' then map_option num_neg (unsigned_decimal_literal r)
      else unsigned_decimal_literal (c # r))"
| "decimal_literal [] = None"

text \<open>
  \<open>Number(s)\<close> on a string: surrounding white space is dropped, the empty string is
  \<open>0\<close>, a numeric literal is its value, and anything else is \<open>NaN\<close>.
\<close>

definition StringToNumber :: "string \<Rightarrow> jsnum" where
  "StringToNumber s =
     (let t = trim s in
      if t = [] then Dec 0 0
      else case non_decimal_literal t of
             Some n \<Rightarrow> n
           | None \<Rightarrow> (case decimal_literal t of Some n \<Rightarrow> n | None \<Rightarrow> NaN))"

subsection \<open>Printing a number\<close>

fun nat_digits :: "nat \<Rightarrow> string" where
  "nat_digits n =
     (if n < 10 then [char_of (48 + n)] else nat_digits (n div 10) @ [char_of (48 + n mod 10)])"

declare nat_digits.simps [simp del]

definition exponent_string :: "int \<Rightarrow> string" where
  "exponent_string x = (if x < 0 then ''e-'' @ nat_digits (nat (- x)) else ''e+'' @ nat_digits (nat x))"

text \<open>
  \<open>Number::toString\<close> in radix 10 on a positive decimal: \<open>s\<close> holds the significant
  digits (no trailing zero), \<open>k\<close> their count, and the value is \<open>0.s * 10^n\<close>.
\<close>

definition positive_decimal_string :: "nat \<Rightarrow> int \<Rightarrow> string" where
  "positive_decimal_string m e =
     (let ds = nat_digits m;
          s = rev (dropWhile (\<lambda>c. c = CHR ''0'') (rev ds));
          k = int (length s);
          n = int (length ds) + e
      in if k \<le> n \<and> n \<le> 21 then s @ replicate (nat (n - k)) CHR ''0''
         else if 0 < n \<and> n \<le> 21 then take (nat n) s @ ''.'' @ drop (nat n) s
         else if - 6 < n \<and> n \<le> 0 then ''0.'' @ replicate (nat (- n)) CHR ''0'' @ s
         else if k = 1 then s @ exponent_string (n - 1)
         else take 1 s @ ''.'' @ drop 1 s @ exponent_string (n - 1))"

fun NumberToString :: "jsnum \<Rightarrow> string" where
  "NumberToString NaN = ''NaN''"
| "NumberToString PosInf = ''Infinity''"
| "NumberToString NegInf = ''-Infinity''"
| "NumberToString (Dec m e) =
     (if m = 0 then ''0''
      else if m < 0 then CHR ''-'' # positive_decimal_string (nat (- m)) e
      else positive_decimal_string (nat m) e)"

subsection \<open>Scalar values\<close>

datatype jsval = JUndefined | JNull | JBool bool | JNum jsnum | JStr string

text \<open>Truthiness, as \<open>||\<close> and \<open>if\<close> see it.\<close>

fun ToBoolean :: "jsval \<Rightarrow> bool" where
  "ToBoolean JUndefined = False"
| "ToBoolean JNull = False"
| "ToBoolean (JBool b) = b"
| "ToBoolean (JNum NaN) = False"
| "ToBoolean (JNum (Dec m e)) = (m \<noteq> 0)"
| "ToBoolean (JNum _) = True"
| "ToBoolean (JStr s) = (s \<noteq> [])"

text \<open>\<open>a || b\<close>\<close>

definition js_or :: "jsval \<Rightarrow> jsval \<Rightarrow> jsval" where
  "js_or a b = (if ToBoolean a then a else b)"

text \<open>\<open>a ?? b\<close>\<close>

fun js_nullish :: "jsval \<Rightarrow> jsval \<Rightarrow> jsval" where
  "js_nullish JUndefined b = b"
| "js_nullish JNull b = b"
| "js_nullish a b = a"

text \<open>\<open>Number(v)\<close>\<close>

fun ToNumber :: "jsval \<Rightarrow> jsnum" where
  "ToNumber JUndefined = NaN"
| "ToNumber JNull = Dec 0 0"
| "ToNumber (JBool b) = (if b then Dec 1 0 else Dec 0 0)"
| "ToNumber (JNum n) = n"
| "ToNumber (JStr s) = StringToNumber s"

text \<open>\<open>String(v)\<close>, also what a template literal inserts.\<close>

fun ToString :: "jsval \<Rightarrow> string" where
  "ToString JUndefined = ''undefined''"
| "ToString JNull = ''null''"
| "ToString (JBool b) = (if b then ''true'' else ''false'')"
| "ToString (JNum n) = NumberToString n"
| "ToString (JStr s) = s"

text \<open>\<open>a === b\<close>: same type and same value; \<open>NaN\<close> equals nothing.\<close>

fun strict_equals :: "jsval \<Rightarrow> jsval \<Rightarrow> bool" where
  "strict_equals JUndefined JUndefined = True"
| "strict_equals JNull JNull = True"
| "strict_equals (JBool a) (JBool b) = (a = b)"
| "strict_equals (JNum a) (JNum b) = num_eq a b"
| "strict_equals (JStr a) (JStr b) = (a = b)"
| "strict_equals _ _ = False"

text \<open>\<open>s.includes(t)\<close>: \<open>t\<close> occurs in \<open>s\<close> as a contiguous run.\<close>

fun str_includes :: "string \<Rightarrow> string \<Rightarrow> bool" where
  "str_includes [] t = (t = [])"
| "str_includes (c # s) t = (prefix t (c # s) \<or> str_includes s t)"

text \<open>
  A plain object used as a dictionary, given by its own properties; a key it does not
  have reads as \<open>undefined\<close>.
\<close>

type_synonym jsrecord = "string \<rightharpoonup> jsval"

definition get :: "jsrecord \<Rightarrow> string \<Rightarrow> jsval" where
  "get obj k = (case obj k of None \<Rightarrow> JUndefined | Some v \<Rightarrow> v)"

text \<open>
  That reading is the language's for every key but the twelve that any object inherits
  from \<open>Object.prototype\<close>: under those a plain object without the key answers with
  the inherited member (a built-in function, or the prototype itself), and an assignment
  to \<open>__proto__\<close> creates no key. \<open>inherited\<close> names them; a statement about
  a key that may be absent holds for the keys that are not inherited.
\<close>

definition inherited :: "string \<Rightarrow> bool" where
  "inherited k =
     (k \<in> set [''constructor'', ''hasOwnProperty'', ''isPrototypeOf'', ''propertyIsEnumerable'',
                ''toLocaleString'', ''toString'', ''valueOf'', ''__proto__'',
                ''__defineGetter__'', ''__defineSetter__'', ''__lookupGetter__'',
                ''__lookupSetter__''])"

section \<open>The validation library\<close>

text \<open>
  \<open>buildZodSchema\<close> assembles its validators from the schema library the project
  depends on (zod 4). The fragment it uses is small, and this section states what that
  fragment does, as the library's documentation and sources define it:
  \<^item> a schema is a base type test followed by a list of checks, in the order the
    builder methods were called; \<open>.refine\<close> appends a check like any other;
  \<^item> parsing runs the base test; when it fails, the result is that one issue and no
    check runs; when it succeeds, every check runs on the parsed value and each failing
    check adds its issue (no check of this fragment aborts the others);
  \<^item> \<open>z.coerce.number\<close> applies \<open>Number(..)\<close> first and accepts a finite number;
  \<^item> \<open>.optional()\<close> accepts \<open>undefined\<close> and hands every other value to the
    schema it wraps.
  An issue is represented by its message, which is all the source reads.
\<close>

datatype zod_check =
    NumberMin jsnum string
  | NumberMax jsnum string
  | StringRegex "string \<Rightarrow> bool" string
  | StringMin jsnum string
  | StringMax jsnum string
  | Refine "jsval \<Rightarrow> bool" string

datatype zod_base = CoerceNumber string | ZBoolean | ZString

datatype zod_type = ZodType zod_base "zod_check list" | ZodOptional zod_type

text \<open>
  The builder methods: each returns the schema with one more check at the end. The
  source adds all its checks before it wraps a schema in \<open>.optional()\<close>, so the
  second equation is never used.
\<close>

fun add_check :: "zod_check \<Rightarrow> zod_type \<Rightarrow> zod_type" where
  "add_check c (ZodType b cs) = ZodType b (cs @ [c])"
| "add_check c (ZodOptional t) = ZodOptional t"

fun parsedType :: "jsval \<Rightarrow> string" where
  "parsedType JUndefined = ''undefined''"
| "parsedType JNull = ''null''"
| "parsedType (JBool _) = ''boolean''"
| "parsedType (JNum n) = (if n = NaN then ''NaN'' else ''number'')"
| "parsedType (JStr _) = ''string''"

text \<open>The library's own wording for a value of the wrong type.\<close>

definition invalid_type :: "string \<Rightarrow> jsval \<Rightarrow> string" where
  "invalid_type expected v =
     ''Invalid input: expected '' @ expected @ '', received '' @ parsedType v"

fun base_parse :: "zod_base \<Rightarrow> jsval \<Rightarrow> string + jsval" where
  "base_parse (CoerceNumber msg) v =
     (let n = ToNumber v in if isFinite n then Inr (JNum n) else Inl msg)"
| "base_parse ZBoolean v = (case v of JBool _ \<Rightarrow> Inr v | _ \<Rightarrow> Inl (invalid_type ''boolean'' v))"
| "base_parse ZString v = (case v of JStr _ \<Rightarrow> Inr v | _ \<Rightarrow> Inl (invalid_type ''string'' v))"

text \<open>
  The issues of one check. The last equation is for a check placed on a value of another
  type than its own, which the base test rules out in every schema built below.
\<close>

fun check_issues :: "zod_check \<Rightarrow> jsval \<Rightarrow> string list" where
  "check_issues (NumberMin v msg) (JNum n) = (if num_ge n v then [] else [msg])"
| "check_issues (NumberMax v msg) (JNum n) = (if num_le n v then [] else [msg])"
| "check_issues (StringRegex test msg) (JStr s) = (if test s then [] else [msg])"
| "check_issues (StringMin v msg) (JStr s) =
     (if num_ge (Dec (int (length s)) 0) v then [] else [msg])"
| "check_issues (StringMax v msg) (JStr s) =
     (if num_le (Dec (int (length s)) 0) v then [] else [msg])"
| "check_issues (Refine p msg) x = (if p x then [] else [msg])"
| "check_issues _ _ = []"

text \<open>The messages of the issues of \<open>schema.safeParse(v)\<close>, in order; none means success.\<close>

fun issues :: "zod_type \<Rightarrow> jsval \<Rightarrow> string list" where
  "issues (ZodType b cs) v =
     (case base_parse b v of
        Inl m \<Rightarrow> [m]
      | Inr x \<Rightarrow> concat (map (\<lambda>c. check_issues c x) cs))"
| "issues (ZodOptional t) v = (if v = JUndefined then [] else issues t v)"

section \<open>The schema model (\<open>types/schema.ts\<close>)\<close>

datatype FieldType = Text | Textarea | Number | Select | Radio | Checkbox | Date

datatype RuleType = RRequired | RMin | RMax | RRegex | RCustom

text \<open>
  \<open>ValidationRule\<close>: its \<open>type\<close>, \<open>value\<close> and \<open>message\<close>. An absent \<open>value\<close> is
  \<open>JUndefined\<close>, an absent \<open>message\<close> is \<open>None\<close>.
\<close>

record ValidationRule =
  rtype :: RuleType
  rvalue :: jsval
  rmessage :: "string option"

datatype Operator = Equals | NotEquals | Contains | GreaterThan | LessThan

text \<open>\<open>ConditionalRule\<close>: its \<open>field\<close>, \<open>operator\<close> and \<open>value\<close>.\<close>

record ConditionalRule =
  cfield :: string
  coperator :: Operator
  cvalue :: jsval

record FieldOption =
  opt_label :: string
  opt_value :: string

text \<open>
  \<open>FormField\<close>, the union of the seven field interfaces, as one record with the
  discriminant \<open>ftype\<close>. Optional properties: \<open>required\<close> absent is \<open>False\<close>,
  \<open>validation\<close> absent is the empty list, \<open>defaultValue\<close> absent is \<open>JUndefined\<close>,
  \<open>options\<close> is empty for the types that have none.
\<close>

record FormField =
  id' :: string
  name :: string
  label :: string
  helpText :: "string option"
  required :: bool
  validation :: "ValidationRule list"
  conditional :: "ConditionalRule option"
  ftype :: FieldType
  placeholder :: "string option"
  defaultValue :: jsval
  options :: "FieldOption list"

record FormSchema =
  title :: string
  description :: "string option"
  fields' :: "FormField list"

section \<open>The validation compiler (\<open>buildZodSchema\<close>)\<close>

text \<open>
  \<open>new RegExp(p)\<close> belongs to the host: it either throws a \<open>SyntaxError\<close> or yields a
  pattern whose \<open>test\<close> decides each string. The compiler takes it as the parameter
  \<open>RegExp\<close>, \<open>None\<close> standing for the throw.
\<close>

type_synonym regexp_host = "string \<Rightarrow> (string \<Rightarrow> bool) option"

datatype exception = SyntaxError string

text \<open>\<open>rule.message || fallback\<close>\<close>

definition message_or :: "ValidationRule \<Rightarrow> string \<Rightarrow> string" where
  "message_or rule fallback =
     (case rmessage rule of None \<Rightarrow> fallback | Some m \<Rightarrow> if m = [] then fallback else m)"

text \<open>The body of the \<open>forEach\<close> of the \<open>number\<close> case.\<close>

definition number_rule :: "zod_type \<Rightarrow> ValidationRule \<Rightarrow> zod_type" where
  "number_rule schema rule =
     (let s1 = (case rvalue rule of
                  JNum v \<Rightarrow>
                    if rtype rule = RMin
                    then add_check (NumberMin v
                           (message_or rule (''Minimum value is '' @ NumberToString v))) schema
                    else schema
                | _ \<Rightarrow> schema)
      in case rvalue rule of
           JNum v \<Rightarrow>
             if rtype rule = RMax
             then add_check (NumberMax v
                    (message_or rule (''Maximum value is '' @ NumberToString v))) s1
             else s1
         | _ \<Rightarrow> s1)"

text \<open>
  The body of the \<open>forEach\<close> of the \<open>default\<close> case. Only the \<open>regex\<close> branch can
  throw, and a rule has one \<open>type\<close>, so at most one of the three branches is taken.
\<close>

definition string_rule :: "regexp_host \<Rightarrow> zod_type \<Rightarrow> ValidationRule \<Rightarrow> exception + zod_type" where
  "string_rule RegExp schema rule =
     (case rvalue rule of
        JStr p \<Rightarrow>
          if rtype rule = RRegex
          then (case RegExp p of
                  None \<Rightarrow> Inl (SyntaxError p)
                | Some test \<Rightarrow> Inr (add_check (StringRegex test (message_or rule ''Invalid format'')) schema))
          else Inr schema
      | JNum v \<Rightarrow>
          if rtype rule = RMin
          then Inr (add_check (StringMin v
                      (message_or rule (''Minimum length is '' @ NumberToString v))) schema)
          else if rtype rule = RMax
          then Inr (add_check (StringMax v
                      (message_or rule (''Maximum length is '' @ NumberToString v))) schema)
          else Inr schema
      | _ \<Rightarrow> Inr schema)"

text \<open>\<open>forEach\<close> over the rules; a throw leaves the loop.\<close>

fun string_rules :: "regexp_host \<Rightarrow> zod_type \<Rightarrow> ValidationRule list \<Rightarrow> exception + zod_type" where
  "string_rules RegExp schema [] = Inr schema"
| "string_rules RegExp schema (rule # rules) =
     (case string_rule RegExp schema rule of
        Inl e \<Rightarrow> Inl e
      | Inr schema' \<Rightarrow> string_rules RegExp schema' rules)"

text \<open>The pattern \<open>/^\d{4}-\d{2}-\d{2}$/\<close> of the \<open>date\<close> case.\<close>

definition date_pattern :: "string \<Rightarrow> bool" where
  "date_pattern s =
     (length s = 10 \<and>
      list_all (is_radix_digit 10) (take 4 s) \<and> s ! 4 = CHR ''-'' \<and>
      list_all (is_radix_digit 10) (take 2 (drop 5 s)) \<and> s ! 7 = CHR ''-'' \<and>
      list_all (is_radix_digit 10) (drop 8 s))"

text \<open>The two predicates handed to \<open>.refine\<close>.\<close>

definition is_true :: "jsval \<Rightarrow> bool" where
  "is_true val = strict_equals val (JBool True)"

definition not_empty :: "jsval \<Rightarrow> bool" where
  "not_empty val =
     (\<not> strict_equals val (JStr []) \<and> \<not> strict_equals val JNull \<and> \<not> strict_equals val JUndefined)"

definition base_schema :: "regexp_host \<Rightarrow> FormField \<Rightarrow> exception + zod_type" where
  "base_schema RegExp field =
     (case ftype field of
        Number \<Rightarrow>
          Inr (foldl number_rule (ZodType (CoerceNumber (label field @ '' must be a number'')) [])
                 (validation field))
      | Checkbox \<Rightarrow> Inr (ZodType ZBoolean [])
      | Date \<Rightarrow> Inr (ZodType ZString [StringRegex date_pattern ''Invalid date format''])
      | _ \<Rightarrow> string_rules RegExp (ZodType ZString []) (validation field))"

definition buildZodSchema :: "regexp_host \<Rightarrow> FormField \<Rightarrow> exception + zod_type" where
  "buildZodSchema RegExp field =
     (case base_schema RegExp field of
        Inl e \<Rightarrow> Inl e
      | Inr schema \<Rightarrow>
          Inr (if required field
               then (if ftype field = Checkbox
                     then add_check (Refine is_true (label field @ '' is required'')) schema
                     else add_check (Refine not_empty (label field @ '' is required'')) schema)
               else ZodOptional schema))"

text \<open>
  What the form reports for one field: \<open>handleSubmit\<close> walks the issues in order and
  stores each message under the field's name, so the last issue of a field is the one
  that stays.
\<close>

datatype ValidationResult = Valid | Invalid string

definition result_of :: "string list \<Rightarrow> ValidationResult" where
  "result_of ms = (if ms = [] then Valid else Invalid (last ms))"

definition check :: "regexp_host \<Rightarrow> FormField \<Rightarrow> jsval \<Rightarrow> exception + ValidationResult" where
  "check RegExp field v =
     (case buildZodSchema RegExp field of
        Inl e \<Rightarrow> Inl e
      | Inr schema \<Rightarrow> Inr (result_of (issues schema v)))"

section \<open>The form renderer (\<open>FormRenderer.tsx\<close>)\<close>

subsection \<open>Default values and visibility\<close>

definition getDefaultValues :: "FormField list \<Rightarrow> jsrecord" where
  "getDefaultValues fs =
     foldl (\<lambda>values field.
              if defaultValue field \<noteq> JUndefined
              then values(name field \<mapsto> defaultValue field)
              else values)
       Map.empty fs"

text \<open>
  \<open>isFieldVisible\<close> reads the component's \<open>formData\<close>, here its first argument. The
  \<open>default\<close> branch of its \<open>switch\<close> has no counterpart: \<open>Operator\<close> has the five
  operators of the type and no other.
\<close>

definition isFieldVisible :: "jsrecord \<Rightarrow> FormField \<Rightarrow> bool" where
  "isFieldVisible formData field =
     (case conditional field of
        None \<Rightarrow> True
      | Some c \<Rightarrow>
          let targetValue = get formData (cfield c); value = cvalue c in
          (case coperator c of
             Equals \<Rightarrow> strict_equals targetValue value
           | NotEquals \<Rightarrow> \<not> strict_equals targetValue value
           | Contains \<Rightarrow> str_includes (ToString (js_or targetValue (JStr []))) (ToString value)
           | GreaterThan \<Rightarrow> num_gt (ToNumber targetValue) (ToNumber value)
           | LessThan \<Rightarrow> num_lt (ToNumber targetValue) (ToNumber value)))"



subsection \<open>Component state\<close>

record SubmitResult =
  success :: bool
  message :: string

text \<open>
  The four \<open>useState\<close> cells of the component. \<open>submitCalls\<close> is not a cell: it counts
  the calls of the external \<open>submitForm\<close> made so far, so that statements can speak
  about them.
\<close>

record FormState =
  formData :: jsrecord
  errors :: "string \<rightharpoonup> string"
  isSubmitting :: bool
  submitResult :: "SubmitResult option"
  submitCalls :: nat

text \<open>The state of a freshly mounted form.\<close>

definition mount :: "FormSchema \<Rightarrow> FormState" where
  "mount schema =
     \<lparr> formData = getDefaultValues (fields' schema), errors = Map.empty,
       isSubmitting = False, submitResult = None, submitCalls = 0 \<rparr>"

text \<open>
  The \<open>useEffect\<close> on \<open>[schema]\<close>: \<open>{...prevData, ...getDefaultValues(schema.fields)}\<close>.
  In a spread the later source wins, which is \<open>++\<close> on maps.
\<close>

definition schemaChanged :: "FormSchema \<Rightarrow> FormState \<Rightarrow> FormState" where
  "schemaChanged schema st =
     st\<lparr> formData := formData st ++ getDefaultValues (fields' schema) \<rparr>"

text \<open>\<open>if (errors[name])\<close> takes an empty message for no error.\<close>

definition handleChange :: "string \<Rightarrow> jsval \<Rightarrow> FormState \<Rightarrow> FormState" where
  "handleChange nm v st =
     st\<lparr> formData := (formData st)(nm \<mapsto> v),
         errors := (case errors st nm of
                      None \<Rightarrow> errors st
                    | Some m \<Rightarrow> if m \<noteq> [] then (errors st)(nm := None) else errors st),
         submitResult := None \<rparr>"

text \<open>What the rendering shows: the value of a text-like input, and the submit button.\<close>

definition displayed_value :: "FormState \<Rightarrow> FormField \<Rightarrow> string" where
  "displayed_value st field = ToString (js_nullish (get (formData st) (name field)) (JStr []))"

definition submit_disabled :: "FormState \<Rightarrow> bool" where
  "submit_disabled st = isSubmitting st"

subsection \<open>Submission\<close>

text \<open>
  \<open>schemaShape[field.name] = ..\<close>: an object keeps the position of a key that is
  assigned again.
\<close>

fun assign :: "string \<Rightarrow> 'v \<Rightarrow> (string \<times> 'v) list \<Rightarrow> (string \<times> 'v) list" where
  "assign k v [] = [(k, v)]"
| "assign k v ((k', v') # rest) =
     (if k = k' then (k, v) # rest else (k', v') # assign k v rest)"

text \<open>
  The \<open>forEach\<close> that fills \<open>schemaShape\<close>. It stands before the \<open>try\<close>, so a throw of
  \<open>buildZodSchema\<close> leaves \<open>handleSubmit\<close>.
\<close>

fun build_shape ::
  "regexp_host \<Rightarrow> jsrecord \<Rightarrow> FormField list \<Rightarrow> (string \<times> zod_type) list
     \<Rightarrow> exception + (string \<times> zod_type) list" where
  "build_shape RegExp fd [] shape = Inr shape"
| "build_shape RegExp fd (field # rest) shape =
     (if isFieldVisible fd field
      then (case buildZodSchema RegExp field of
              Inl e \<Rightarrow> Inl e
            | Inr s \<Rightarrow> build_shape RegExp fd rest (assign (name field) s shape))
      else build_shape RegExp fd rest shape)"

text \<open>
  \<open>z.object(schemaShape).parse(formData)\<close>: each key of the shape is parsed against the
  property of that name; an issue carries the key as its path.
\<close>

definition object_issues :: "(string \<times> zod_type) list \<Rightarrow> jsrecord \<Rightarrow> (string \<times> string) list" where
  "object_issues shape fd =
     concat (map (\<lambda>(k, s). map (\<lambda>m. (k, m)) (issues s (get fd k))) shape)"

text \<open>The \<open>catch\<close> branch: \<open>if (err.path[0]) newErrors[err.path[0]] = err.message\<close>.\<close>

definition newErrors :: "(string \<times> string) list \<Rightarrow> (string \<rightharpoonup> string)" where
  "newErrors iss =
     foldl (\<lambda>errs (path, msg). if path \<noteq> [] then errs(path \<mapsto> msg) else errs) Map.empty iss"

text \<open>
  \<open>handleSubmit\<close> up to its \<open>await\<close>. \<open>Inl\<close> is an exception that escapes the handler
  (nothing but \<open>submitResult\<close> has been touched by then). Otherwise either validation
  failed and the errors are recorded, or \<open>submitForm\<close> has been called and is pending.
\<close>

definition handleSubmit :: "regexp_host \<Rightarrow> FormSchema \<Rightarrow> FormState \<Rightarrow> exception + FormState" where
  "handleSubmit RegExp schema st =
     (case build_shape RegExp (formData st) (fields' schema) [] of
        Inl e \<Rightarrow> Inl e
      | Inr shape \<Rightarrow>
          let iss = object_issues shape (formData st) in
          if iss = []
          then Inr (st\<lparr> submitResult := None, errors := Map.empty, isSubmitting := True,
                       submitCalls := submitCalls st + 1 \<rparr>)
          else Inr (st\<lparr> submitResult := None, errors := newErrors iss, isSubmitting := False \<rparr>))"

text \<open>The rest of \<open>handleSubmit\<close>, run when \<open>submitForm\<close> settles with \<open>result\<close>.\<close>

definition submitSettled :: "FormSchema \<Rightarrow> SubmitResult \<Rightarrow> FormState \<Rightarrow> FormState" where
  "submitSettled schema result st =
     st\<lparr> submitResult := Some result,
         formData := (if success result then getDefaultValues (fields' schema) else formData st),
         isSubmitting := False \<rparr>"

section \<open>Export and import (\<open>App.tsx\<close>)\<close>

text \<open>
  \<open>handleExport\<close> writes \<open>JSON.stringify(schema, null, 2)\<close> to a file and
  \<open>handleImport\<close> hands the text of a file to \<open>JSON.parse\<close>. Both functions belong
  to the language; this section states what they compute, following the language
  standard: the value tree of JSON, the serialisation with a gap of two spaces, and the
  parser of the JSON grammar.
\<close>

subsection \<open>JSON values and \<open>JSON.stringify\<close>\<close>







subsection \<open>\<open>JSON.parse\<close>\<close>















subsection \<open>The schema as a JSON value\<close>












subsection \<open>Reading a schema\<close>

















subsection \<open>The two handlers\<close>




subsection \<open>Vocabulary of the round trip\<close>










section \<open>Sample inputs\<close>

text \<open>
  A statement at a concrete input has to name a host. \<open>sample_RegExp\<close> answers as the
  language does on the patterns used below: a pattern of letters, digits and spaces
  matches the strings that contain it, and the pattern \<open>(\<close>, an unterminated group, is
  rejected. It rejects every other pattern as well, which the language does not; the
  general statements hold for every host and do not refer to it.
\<close>

definition plain_char :: "char \<Rightarrow> bool" where
  "plain_char c =
     (is_radix_digit 10 c \<or> c = CHR '' '' \<or>
      (let n = of_char c :: nat in (65 \<le> n \<and> n \<le> 90) \<or> (97 \<le> n \<and> n \<le> 122)))"

definition sample_RegExp :: regexp_host where
  "sample_RegExp p =
     (if p \<noteq> [] \<and> list_all plain_char p then Some (\<lambda>s. str_includes s p) else None)"

text \<open>The field of the specification's first scenario: a required number with a minimum.\<close>

definition age_field :: FormField where
  "age_field =
     \<lparr> id' = ''field-1'', name = ''age'', label = ''age'', helpText = None, required = True,
       validation = [\<lparr> rtype = RMin, rvalue = JNum (Dec 18 0), rmessage = Some ''Must be 18+'' \<rparr>],
       conditional = None, ftype = Number, placeholder = None, defaultValue = JUndefined,
       options = [] \<rparr>"

text \<open>A date with a maximum length that no date can meet.\<close>

definition birthday_field :: FormField where
  "birthday_field =
     \<lparr> id' = ''field-2'', name = ''birthday'', label = ''Birthday'', helpText = None,
       required = False,
       validation = [\<lparr> rtype = RMax, rvalue = JNum (Dec 5 0), rmessage = Some ''Too long'' \<rparr>],
       conditional = None, ftype = Date, placeholder = None, defaultValue = JUndefined,
       options = [] \<rparr>"

text \<open>An optional text with a minimum length.\<close>

definition nickname_field :: FormField where
  "nickname_field =
     \<lparr> id' = ''field-3'', name = ''nickname'', label = ''Nickname'', helpText = None,
       required = False,
       validation = [\<lparr> rtype = RMin, rvalue = JNum (Dec 3 0), rmessage = None \<rparr>],
       conditional = None, ftype = Text, placeholder = None, defaultValue = JUndefined,
       options = [] \<rparr>"

text \<open>A form with the age field, and its state while a valid submission is pending.\<close>

definition age_schema :: FormSchema where
  "age_schema = \<lparr> title = ''Sign up'', description = None, fields' = [age_field] \<rparr>"

definition in_flight :: FormState where
  "in_flight =
     \<lparr> formData = [''age'' \<mapsto> JStr ''21''], errors = Map.empty, isSubmitting = True,
       submitResult = None, submitCalls = 1 \<rparr>"

text \<open>An address form before and after the editor adds a field.\<close>

definition city_field :: FormField where
  "city_field =
     \<lparr> id' = ''field-4'', name = ''city'', label = ''City'', helpText = None, required = False,
       validation = [], conditional = None, ftype = Text, placeholder = None,
       defaultValue = JStr ''London'', options = [] \<rparr>"

definition zip_field :: FormField where
  "zip_field =
     \<lparr> id' = ''field-5'', name = ''zip'', label = ''Zip'', helpText = None, required = False,
       validation = [], conditional = None, ftype = Text, placeholder = None,
       defaultValue = JUndefined, options = [] \<rparr>"



text \<open>A field shown only while the zip field equals the empty string.\<close>

definition unit_field :: FormField where
  "unit_field =
     \<lparr> id' = ''field-10'', name = ''unit'', label = ''Unit'', helpText = None, required = False,
       validation = [],
       conditional = Some \<lparr> cfield = ''zip'', coperator = Equals, cvalue = JStr [] \<rparr>,
       ftype = Text, placeholder = None, defaultValue = JUndefined, options = [] \<rparr>"

definition unit_schema :: FormSchema where
  "unit_schema =
     \<lparr> title = ''Address'', description = None, fields' = [city_field, zip_field, unit_field] \<rparr>"

text \<open>A text field whose pattern is an unterminated group.\<close>

definition code_field :: FormField where
  "code_field =
     \<lparr> id' = ''field-6'', name = ''code'', label = ''Code'', helpText = None, required = False,
       validation = [\<lparr> rtype = RRegex, rvalue = JStr ''('', rmessage = None \<rparr>],
       conditional = None, ftype = Text, placeholder = None,
       defaultValue = JUndefined, options = [] \<rparr>"

definition code_schema :: FormSchema where
  "code_schema =
     \<lparr> title = ''Codes'', description = None, fields' = [nickname_field, code_field] \<rparr>"




text \<open>
  Two fields of one name, as the editor makes them (it names a new field after the
  number of fields, so adding two fields, deleting the first and adding another gives
  \<open>field_2\<close> twice); the first has a default, the second has none.
\<close>

definition first_twin :: FormField where
  "first_twin =
     \<lparr> id' = ''field-14'', name = ''field_2'', label = ''Field 2'', helpText = None,
       required = False, validation = [], conditional = None, ftype = Text,
       placeholder = None, defaultValue = JStr ''x'', options = [] \<rparr>"

definition second_twin :: FormField where
  "second_twin =
     \<lparr> id' = ''field-15'', name = ''field_2'', label = ''Field 2'', helpText = None,
       required = False, validation = [], conditional = None, ftype = Text,
       placeholder = None, defaultValue = JUndefined, options = [] \<rparr>"

definition twin_schema :: FormSchema where
  "twin_schema =
     \<lparr> title = ''Twins'', description = None, fields' = [first_twin, second_twin] \<rparr>"

text \<open>A quantity that starts at the number 0, and a field shown when it contains a zero.\<close>

definition qty_field :: FormField where
  "qty_field =
     \<lparr> id' = ''field-8'', name = ''qty'', label = ''Quantity'', helpText = None, required = False,
       validation = [], conditional = None, ftype = Number, placeholder = None,
       defaultValue = JNum (Dec 0 0), options = [] \<rparr>"

definition gift_field :: FormField where
  "gift_field =
     \<lparr> id' = ''field-9'', name = ''gift'', label = ''Gift note'', helpText = None,
       required = False, validation = [],
       conditional = Some \<lparr> cfield = ''qty'', coperator = Contains, cvalue = JStr ''0'' \<rparr>,
       ftype = Text, placeholder = None, defaultValue = JUndefined, options = [] \<rparr>"

definition gift_schema :: FormSchema where
  "gift_schema = \<lparr> title = ''Order'', description = None, fields' = [qty_field, gift_field] \<rparr>"


section \<open>Properties of the validation compiler\<close>

subsection \<open>Shape of the compiled schema\<close>

lemma string_rule_shape:
  "string_rule RegExp (ZodType ZString cs) rule = Inr s \<Longrightarrow> \<exists>cs'. s = ZodType ZString cs'"
  by (auto simp: string_rule_def split: jsval.splits if_splits option.splits)

lemma string_rules_shape:
  "string_rules RegExp (ZodType ZString cs) rules = Inr s \<Longrightarrow> \<exists>cs'. s = ZodType ZString cs'"
proof (induction rules arbitrary: cs)
  case Nil
  then show ?case by auto
next
  case (Cons rule rules)
  then show ?case
    by (auto split: sum.splits dest!: string_rule_shape)
qed

lemma base_schema_string:
  assumes "ftype f \<noteq> Number" and "ftype f \<noteq> Checkbox" and "base_schema RegExp f = Inr s"
  shows "\<exists>cs. s = ZodType ZString cs"
  using assms
  by (cases "ftype f") (auto simp: base_schema_def dest: string_rules_shape)

lemma positive_decimal_string_3: "positive_decimal_string 3 0 = ''3''"
  by code_simp

subsection \<open>Presence before shape\<close>

text \<open>
  The part of presence-before-shape that the compiler delivers. On a required field whose
  values are strings (every type but \<open>number\<close> and \<open>checkbox\<close>), the empty string fails
  the \<open>refine\<close> that was added last, so the required message is the last issue and the one
  the form shows, whatever the rules before it reported.
\<close>

lemma required_string_field_empty:
  assumes "required f" and "ftype f \<noteq> Number" and "ftype f \<noteq> Checkbox"
    and "buildZodSchema RegExp f = Inr s"
  shows "check RegExp f (JStr []) = Inr (Invalid (label f @ '' is required''))"
proof -
  from assms obtain b where b: "base_schema RegExp f = Inr b"
    and s: "s = add_check (Refine not_empty (label f @ '' is required'')) b"
    by (auto simp: buildZodSchema_def split: sum.splits)
  from base_schema_string[OF assms(2,3) b] obtain cs where "b = ZodType ZString cs" ..
  with s assms(4) show ?thesis
    by (simp add: check_def result_of_def not_empty_def)
qed

lemma required_checkbox_unchecked:
  assumes "required f" and "ftype f = Checkbox"
  shows "check RegExp f (JBool False) = Inr (Invalid (label f @ '' is required''))"
  using assms by (simp add: check_def buildZodSchema_def base_schema_def result_of_def is_true_def)

text \<open>
  A value that fails the base type test never reaches the \<open>refine\<close>: a missing value on
  a required text field is reported in the library's words.
\<close>

lemma required_string_field_undefined:
  assumes "required f" and "ftype f \<noteq> Number" and "ftype f \<noteq> Checkbox"
    and "buildZodSchema RegExp f = Inr s"
  shows "check RegExp f JUndefined
           = Inr (Invalid ''Invalid input: expected string, received undefined'')"
proof -
  from assms obtain b where b: "base_schema RegExp f = Inr b"
    and s: "s = add_check (Refine not_empty (label f @ '' is required'')) b"
    by (auto simp: buildZodSchema_def split: sum.splits)
  from base_schema_string[OF assms(2,3) b] obtain cs where "b = ZodType ZString cs" ..
  with s assms(4) show ?thesis
    by (simp add: check_def result_of_def invalid_type_def)
qed

text \<open>
  A required number field without a rule accepts the empty string: it is the number 0 by
  the time the \<open>refine\<close> looks at it.
\<close>

lemma required_number_field_empty:
  assumes "required f" and "ftype f = Number" and "validation f = []"
  shows "check RegExp f (JStr []) = Inr Valid"
  using assms
  by (simp add: check_def buildZodSchema_def base_schema_def result_of_def StringToNumber_def
      trim_def not_empty_def)

text \<open>
  Claim C1: for every required field, checking an empty value returns Invalid with exactly
  the message "{label} is required", never a shape-rule message; in particular the empty
  string on a number field counts as no value and is not coerced to 0, so that required
  and not min reports it.

  On the number field of the first scenario the compiler does otherwise. \<open>z.coerce.number\<close>
  turns the empty string into 0 before any check runs; 0 fails the minimum of 18, and the
  \<open>refine\<close> that guards against the empty string sees the number 0 and passes. The form
  shows the message of the min rule.
\<close>

theorem C1_number_field_empty_string:
  "check RegExp age_field (JStr []) = Inr (Invalid ''Must be 18+'')"
  by (simp add: check_def buildZodSchema_def base_schema_def age_field_def number_rule_def
      message_or_def result_of_def StringToNumber_def trim_def num_ge_def num_le_def
      not_empty_def)

subsection \<open>Which rules a field type applies\<close>

lemma date_field_ignores_rules:
  "ftype f = Date \<Longrightarrow> buildZodSchema RegExp f = buildZodSchema RegExp (f\<lparr> validation := rules \<rparr>)"
  by (simp add: buildZodSchema_def base_schema_def)

lemma checkbox_field_ignores_rules:
  "ftype f = Checkbox \<Longrightarrow>
   buildZodSchema RegExp f = buildZodSchema RegExp (f\<lparr> validation := rules \<rparr>)"
  by (simp add: buildZodSchema_def base_schema_def)

text \<open>A select field falls into the \<open>default\<close> case and applies the rules of a text field.\<close>

lemma select_field_applies_rules:
  "check RegExp (birthday_field\<lparr> ftype := Select \<rparr>) (JStr ''2024-01-01'') = Inr (Invalid ''Too long'')"
  by (simp add: check_def buildZodSchema_def base_schema_def birthday_field_def string_rule_def
      message_or_def result_of_def num_le_def)

text \<open>
  Claim C2: the compiled validator applies a declared rule if and only if the pair of field
  type and rule type is legal: min and max as numeric bounds on number fields; min and max
  as string-length bounds and regex as a pattern match on text, textarea and date fields;
  no rule at all on select, radio and checkbox fields.

  On a date field the compiler does otherwise: the \<open>date\<close> case installs the fixed date
  pattern and never visits the rules. A maximum length of 5 is declared here, the value
  has ten characters, and the check succeeds.
\<close>

theorem C2_date_field_max_length_not_applied:
  "check RegExp birthday_field (JStr ''2024-01-01'') = Inr Valid"
  by (simp add: check_def buildZodSchema_def base_schema_def birthday_field_def
      result_of_def date_pattern_def is_radix_digit_def digit_of_def)

subsection \<open>Optional fields\<close>

text \<open>
  Claim C3, as stated: for every non-required field, checking an empty or undefined value
  returns Valid, even when the field declares shape rules. It fails for the empty string:
  \<open>.optional()\<close> lets \<open>undefined\<close> through and nothing else, so the empty string of an
  optional text field is measured against its minimum length.
\<close>

theorem C3_counterexample:
  "check sample_RegExp nickname_field (JStr []) = Inr (Invalid ''Minimum length is 3'')"
  by (simp add: check_def buildZodSchema_def base_schema_def nickname_field_def string_rule_def
      message_or_def result_of_def num_ge_def num_le_def positive_decimal_string_3)

subsection \<open>Patterns the host rejects\<close>

lemma string_rule_throws:
  "(\<exists>e. string_rule RegExp s r = Inl e) =
   (rtype r = RRegex \<and> (\<exists>p. rvalue r = JStr p \<and> RegExp p = None))"
  by (auto simp: string_rule_def split: jsval.splits option.splits)

lemma string_rules_throws:
  "(\<exists>e. string_rules RegExp s rules = Inl e) =
   (\<exists>r\<in>set rules. rtype r = RRegex \<and> (\<exists>p. rvalue r = JStr p \<and> RegExp p = None))"
proof (induction rules arbitrary: s)
  case Nil
  then show ?case by simp
next
  case (Cons r rules)
  show ?case
  proof (cases "string_rule RegExp s r")
    case (Inl e)
    then have "\<exists>e. string_rule RegExp s r = Inl e" by blast
    then have "rtype r = RRegex \<and> (\<exists>p. rvalue r = JStr p \<and> RegExp p = None)"
      using string_rule_throws[of RegExp s r] by blast
    with Inl show ?thesis by auto
  next
    case (Inr s')
    then have "\<not> (\<exists>e. string_rule RegExp s r = Inl e)" by simp
    then have "\<not> (rtype r = RRegex \<and> (\<exists>p. rvalue r = JStr p \<and> RegExp p = None))"
      using string_rule_throws[of RegExp s r] by blast
    with Inr Cons.IH[of s'] show ?thesis by auto
  qed
qed

lemma buildZodSchema_throws:
  "(\<exists>e. buildZodSchema RegExp f = Inl e) =
   (ftype f \<in> {Text, Textarea, Select, Radio} \<and>
    (\<exists>r\<in>set (validation f). rtype r = RRegex \<and> (\<exists>p. rvalue r = JStr p \<and> RegExp p = None)))"
proof -
  have "(\<exists>e. buildZodSchema RegExp f = Inl e) = (\<exists>e. base_schema RegExp f = Inl e)"
    by (auto simp: buildZodSchema_def split: sum.splits)
  also have "\<dots> = (ftype f \<in> {Text, Textarea, Select, Radio} \<and>
      (\<exists>e. string_rules RegExp (ZodType ZString []) (validation f) = Inl e))"
    by (cases "ftype f") (auto simp: base_schema_def)
  finally show ?thesis by (simp only: string_rules_throws)
qed

text \<open>
  Claim C3, amended: for every non-required field, checking an undefined value returns
  Valid, whatever shape rules the field declares: the absence of a value short-circuits
  to Valid without running any declared rule. The one exception is a text, textarea,
  select or radio field with a regex rule whose pattern the host rejects: its validator
  is never built, so the check of undefined throws like the check of any other value.
  The empty string is a value and is checked against the rules.
\<close>

theorem C3_optional_undefined_is_valid:
  assumes "\<not> required f"
  shows "if ftype f \<in> {Text, Textarea, Select, Radio} \<and>
            (\<exists>r\<in>set (validation f).
               rtype r = RRegex \<and> (\<exists>p. rvalue r = JStr p \<and> RegExp p = None))
         then \<exists>e. check RegExp f JUndefined = Inl e
         else check RegExp f JUndefined = Inr Valid"
proof -
  have t: "(\<exists>e. buildZodSchema RegExp f = Inl e) =
      (ftype f \<in> {Text, Textarea, Select, Radio} \<and>
       (\<exists>r\<in>set (validation f).
          rtype r = RRegex \<and> (\<exists>p. rvalue r = JStr p \<and> RegExp p = None)))"
    by (rule buildZodSchema_throws)
  show ?thesis
  proof (cases "buildZodSchema RegExp f")
    case (Inl e)
    then have "\<exists>e. check RegExp f JUndefined = Inl e"
      by (simp add: check_def)
    with Inl t show ?thesis by (simp del: insert_iff)
  next
    case (Inr s)
    with assms have "check RegExp f JUndefined = Inr Valid"
      by (auto simp: check_def buildZodSchema_def result_of_def split: sum.splits)
    moreover from Inr have "\<not> (\<exists>e. buildZodSchema RegExp f = Inl e)" by simp
    ultimately show ?thesis using t by (simp del: insert_iff)
  qed
qed

theorem C3_optional_undefined_is_valid_witness:
  "\<not> required nickname_field \<and> check sample_RegExp nickname_field JUndefined = Inr Valid \<and>
   \<not> required code_field \<and> (\<exists>e. check sample_RegExp code_field JUndefined = Inl e)"
proof -
  have r: "\<not> required nickname_field" "\<not> required code_field"
    by (simp_all add: nickname_field_def code_field_def)
  have n: "\<not> (ftype nickname_field \<in> {Text, Textarea, Select, Radio} \<and>
       (\<exists>r\<in>set (validation nickname_field).
          rtype r = RRegex \<and> (\<exists>p. rvalue r = JStr p \<and> sample_RegExp p = None)))"
    by (simp add: nickname_field_def)
  have c: "ftype code_field \<in> {Text, Textarea, Select, Radio} \<and>
       (\<exists>r\<in>set (validation code_field).
          rtype r = RRegex \<and> (\<exists>p. rvalue r = JStr p \<and> sample_RegExp p = None))"
    by (simp add: code_field_def sample_RegExp_def plain_char_def is_radix_digit_def digit_of_def)
  from C3_optional_undefined_is_valid[OF r(1), of sample_RegExp] n
  have 1: "check sample_RegExp nickname_field JUndefined = Inr Valid"
    by (simp only: if_False)
  from C3_optional_undefined_is_valid[OF r(2), of sample_RegExp] c
  have 2: "\<exists>e. check sample_RegExp code_field JUndefined = Inl e"
    by (simp only: if_True)
  from r 1 2 show ?thesis by simp
qed

lemma build_shape_throws:
  "f \<in> set fs \<Longrightarrow> isFieldVisible fd f \<Longrightarrow> buildZodSchema RegExp f = Inl e \<Longrightarrow>
   \<exists>e'. build_shape RegExp fd fs shape = Inl e'"
proof (induction fs arbitrary: shape)
  case Nil
  then show ?case by simp
next
  case (Cons g fs)
  show ?case
  proof (cases "g = f")
    case True
    with Cons.prems show ?thesis by simp
  next
    case False
    with Cons.prems have "f \<in> set fs" by simp
    from Cons.IH[OF this Cons.prems(2,3)] show ?thesis
      by (auto split: sum.splits)
  qed
qed

text \<open>
  Claim C6, as stated: a malformed pattern in a regex rule yields Invalid("Invalid format")
  for that field as data rather than a throw; compiling never fails for a well-formed
  field, and one malformed rule never aborts the validation of sibling fields or the
  submit attempt. It fails on a text field whose pattern is \<open>(\<close>: \<open>new RegExp\<close> throws
  inside \<open>buildZodSchema\<close>, nothing catches it, and \<open>handleSubmit\<close> ends in that
  exception although the sibling field before it is fine.
\<close>

theorem C6_counterexample:
  "check sample_RegExp code_field (JStr ''A1'') = Inl (SyntaxError ''('') \<and>
   handleSubmit sample_RegExp code_schema (mount code_schema) = Inl (SyntaxError ''('')"
  by (simp add: check_def handleSubmit_def code_schema_def mount_def getDefaultValues_def
      isFieldVisible_def nickname_field_def code_field_def buildZodSchema_def base_schema_def
      string_rule_def sample_RegExp_def plain_char_def is_radix_digit_def digit_of_def)

text \<open>
  Claim C6, amended: compiling a field throws exactly when the field is a text, textarea,
  select or radio field with a regex rule whose pattern the host rejects; every other
  field compiles (number, checkbox and date fields never compile a pattern). The throw is
  not turned into data: a submit attempt in which such a field is visible ends in the
  exception, before any field is validated, with no error recorded and no submission made.
\<close>

theorem C6_malformed_pattern_throws:
  "((\<exists>e. buildZodSchema RegExp f = Inl e) =
      (ftype f \<in> {Text, Textarea, Select, Radio} \<and>
       (\<exists>r\<in>set (validation f).
          rtype r = RRegex \<and> (\<exists>p. rvalue r = JStr p \<and> RegExp p = None)))) \<and>
   ((\<exists>e. buildZodSchema RegExp f = Inl e) \<longrightarrow> f \<in> set (fields' schema) \<longrightarrow>
      isFieldVisible (formData st) f \<longrightarrow> (\<exists>e. handleSubmit RegExp schema st = Inl e))"
proof (intro conjI impI)
  show "(\<exists>e. buildZodSchema RegExp f = Inl e) =
      (ftype f \<in> {Text, Textarea, Select, Radio} \<and>
       (\<exists>r\<in>set (validation f).
          rtype r = RRegex \<and> (\<exists>p. rvalue r = JStr p \<and> RegExp p = None)))"
    by (rule buildZodSchema_throws)
next
  assume "\<exists>e. buildZodSchema RegExp f = Inl e" and "f \<in> set (fields' schema)"
    and "isFieldVisible (formData st) f"
  then obtain e' where "build_shape RegExp (formData st) (fields' schema) [] = Inl e'"
    using build_shape_throws by blast
  then show "\<exists>e. handleSubmit RegExp schema st = Inl e"
    by (simp add: handleSubmit_def)
qed

theorem C6_malformed_pattern_throws_witness:
  "(\<exists>e. buildZodSchema sample_RegExp code_field = Inl e) \<and>
   code_field \<in> set (fields' code_schema) \<and>
   isFieldVisible (formData (mount code_schema)) code_field \<and>
   (\<exists>e. handleSubmit sample_RegExp code_schema (mount code_schema) = Inl e) \<and>
   (\<exists>s. buildZodSchema sample_RegExp nickname_field = Inr s)"
proof -
  have t: "\<exists>e. buildZodSchema sample_RegExp code_field = Inl e"
    by (simp add: code_field_def buildZodSchema_def base_schema_def string_rule_def
        sample_RegExp_def plain_char_def is_radix_digit_def digit_of_def)
  have m: "code_field \<in> set (fields' code_schema)"
    by (simp add: code_schema_def)
  have v: "isFieldVisible (formData (mount code_schema)) code_field"
    by (simp add: isFieldVisible_def code_field_def)
  have n: "\<not> (ftype nickname_field \<in> {Text, Textarea, Select, Radio} \<and>
       (\<exists>r\<in>set (validation nickname_field).
          rtype r = RRegex \<and> (\<exists>p. rvalue r = JStr p \<and> sample_RegExp p = None)))"
    by (simp add: nickname_field_def)
  have "\<not> (\<exists>e. buildZodSchema sample_RegExp nickname_field = Inl e)"
    using C6_malformed_pattern_throws[of sample_RegExp nickname_field code_schema "mount code_schema"] n
    by blast
  then have k: "\<exists>s. buildZodSchema sample_RegExp nickname_field = Inr s"
    by (cases "buildZodSchema sample_RegExp nickname_field") auto
  from C6_malformed_pattern_throws[of sample_RegExp code_field code_schema "mount code_schema"]
    t m v k
  show ?thesis by blast
qed

section \<open>Properties of the form renderer\<close>

subsection \<open>Default values\<close>

lemma seed_none:
  "(\<forall>f\<in>set fs. name f = k \<longrightarrow> defaultValue f = JUndefined) \<Longrightarrow>
   foldl (\<lambda>values field.
            if defaultValue field \<noteq> JUndefined
            then values(name field \<mapsto> defaultValue field)
            else values) m fs k = m k"
  by (induction fs rule: rev_induct) auto

lemma seed_some:
  "\<exists>f\<in>set fs. name f = k \<and> defaultValue f \<noteq> JUndefined \<Longrightarrow>
   \<exists>g\<in>set fs. name g = k \<and> defaultValue g \<noteq> JUndefined \<and>
     foldl (\<lambda>values field.
              if defaultValue field \<noteq> JUndefined
              then values(name field \<mapsto> defaultValue field)
              else values) m fs k = Some (defaultValue g)"
proof (induction fs rule: rev_induct)
  case Nil
  then show ?case by simp
next
  case (snoc f fs)
  show ?case
  proof (cases "name f = k \<and> defaultValue f \<noteq> JUndefined")
    case True
    then show ?thesis by auto
  next
    case False
    with snoc.prems have "\<exists>f\<in>set fs. name f = k \<and> defaultValue f \<noteq> JUndefined"
      by auto
    from snoc.IH[OF this] obtain g where "g \<in> set fs" "name g = k"
      "defaultValue g \<noteq> JUndefined"
      "foldl (\<lambda>values field.
                if defaultValue field \<noteq> JUndefined
                then values(name field \<mapsto> defaultValue field)
                else values) m fs k = Some (defaultValue g)"
      by blast
    with False show ?thesis by auto
  qed
qed

lemma getDefaultValues_None:
  "(\<forall>f\<in>set fs. name f = k \<longrightarrow> defaultValue f = JUndefined) \<Longrightarrow> getDefaultValues fs k = None"
  by (simp add: getDefaultValues_def seed_none)

lemma getDefaultValues_Some:
  "\<exists>f\<in>set fs. name f = k \<and> defaultValue f \<noteq> JUndefined \<Longrightarrow>
   \<exists>g\<in>set fs. name g = k \<and> defaultValue g \<noteq> JUndefined \<and>
     getDefaultValues fs k = Some (defaultValue g)"
  unfolding getDefaultValues_def by (rule seed_some)

text \<open>For any schema: a name has an entry exactly when some field of that name has a default.\<close>

lemma getDefaultValues_dom:
  "(k \<in> dom (getDefaultValues fs)) = (\<exists>f\<in>set fs. name f = k \<and> defaultValue f \<noteq> JUndefined)"
proof
  assume "k \<in> dom (getDefaultValues fs)"
  then show "\<exists>f\<in>set fs. name f = k \<and> defaultValue f \<noteq> JUndefined"
    using getDefaultValues_None[of fs k]
    by (cases "\<exists>f\<in>set fs. name f = k \<and> defaultValue f \<noteq> JUndefined") auto
next
  assume "\<exists>f\<in>set fs. name f = k \<and> defaultValue f \<noteq> JUndefined"
  from getDefaultValues_Some[OF this] show "k \<in> dom (getDefaultValues fs)" by auto
qed

text \<open>The effect that runs after the first rendering changes nothing.\<close>

lemma schemaChanged_mount: "schemaChanged schema (mount schema) = mount schema"
  by (simp add: schemaChanged_def mount_def map_add_def fun_eq_iff split: option.splits)

text \<open>
  Claim C10, as stated: for every schema the freshly mounted value map has an entry under
  a field's name if and only if that field's defaultValue is defined, and a field without
  a default has no entry at all, its value being undefined while the rendered input shows
  the empty string. It fails when two fields share a name: the value map is keyed by
  name, so the second field, which has no default, finds the entry of the first and its
  input shows \<open>x\<close>.
\<close>

theorem C10_counterexample:
  "second_twin \<in> set (fields' twin_schema) \<and> defaultValue second_twin = JUndefined \<and>
   formData (mount twin_schema) (name second_twin) = Some (JStr ''x'') \<and>
   displayed_value (mount twin_schema) second_twin = ''x''"
  by (simp add: twin_schema_def first_twin_def second_twin_def mount_def getDefaultValues_def
      displayed_value_def get_def)

text \<open>
  Claim C10, amended: in a schema whose field names are pairwise distinct, for a field
  whose name is not one that every object inherits, the freshly mounted value map has an
  entry under the field's name if and only if the field's defaultValue is defined. A
  field without a default has no entry at all: its value is undefined and not the empty
  string, so a conditional that compares it with "" by equals is false until the field is
  edited, although the rendered input shows the empty string. Once the field holds the
  empty string the same conditional is true. (\<open>getDefaultValues_dom\<close> is the
  statement for names that repeat.)
\<close>

theorem C10_fresh_value_map:
  assumes "distinct (map name (fields' schema))" and "f \<in> set (fields' schema)"
    and "\<not> inherited (name f)"
  shows "(name f \<in> dom (formData (mount schema))) = (defaultValue f \<noteq> JUndefined) \<and>
         (defaultValue f = JUndefined \<longrightarrow>
            get (formData (mount schema)) (name f) = JUndefined \<and>
            displayed_value (mount schema) f = [] \<and>
            (\<forall>g c. conditional g = Some c \<longrightarrow> cfield c = name f \<longrightarrow>
                   coperator c = Equals \<longrightarrow> cvalue c = JStr [] \<longrightarrow>
               isFieldVisible (formData (mount schema)) g = False \<and>
               isFieldVisible (formData (handleChange (name f) (JStr []) (mount schema))) g
                 = True))"
proof -
  have only: "\<And>g. g \<in> set (fields' schema) \<Longrightarrow> name g = name f \<Longrightarrow> g = f"
    using assms by (meson distinct_map inj_onD)
  have dom: "(name f \<in> dom (formData (mount schema))) = (defaultValue f \<noteq> JUndefined)"
    using assms(2) only by (auto simp: mount_def getDefaultValues_dom)
  have absent: "get (formData (mount schema)) (name f) = JUndefined"
    if "defaultValue f = JUndefined"
    using dom that by (auto simp: get_def split: option.splits)
  show ?thesis
  proof (intro conjI impI allI)
    show "(name f \<in> dom (formData (mount schema))) = (defaultValue f \<noteq> JUndefined)"
      by (rule dom)
  next
    assume "defaultValue f = JUndefined"
    then show "get (formData (mount schema)) (name f) = JUndefined"
      by (rule absent)
  next
    assume "defaultValue f = JUndefined"
    then show "displayed_value (mount schema) f = []"
      by (simp add: displayed_value_def absent)
  next
    fix g :: FormField and c :: ConditionalRule
    assume "defaultValue f = JUndefined" "conditional g = Some c" "cfield c = name f"
      "coperator c = Equals" "cvalue c = JStr []"
    then show "isFieldVisible (formData (mount schema)) g = False"
      by (simp add: isFieldVisible_def absent)
  next
    fix g :: FormField and c :: ConditionalRule
    assume "defaultValue f = JUndefined" "conditional g = Some c" "cfield c = name f"
      "coperator c = Equals" "cvalue c = JStr []"
    then show "isFieldVisible (formData (handleChange (name f) (JStr []) (mount schema))) g
                 = True"
      by (simp add: isFieldVisible_def handleChange_def get_def)
  qed
qed

theorem C10_fresh_value_map_witness:
  "distinct (map name (fields' unit_schema)) \<and> zip_field \<in> set (fields' unit_schema) \<and>
   \<not> inherited (name zip_field) \<and>
   defaultValue zip_field = JUndefined \<and>
   conditional unit_field = Some \<lparr> cfield = ''zip'', coperator = Equals, cvalue = JStr [] \<rparr> \<and>
   ''zip'' \<notin> dom (formData (mount unit_schema)) \<and>
   displayed_value (mount unit_schema) zip_field = [] \<and>
   isFieldVisible (formData (mount unit_schema)) unit_field = False \<and>
   isFieldVisible (formData (handleChange ''zip'' (JStr []) (mount unit_schema))) unit_field = True"
proof -
  have d: "distinct (map name (fields' unit_schema))"
    by (simp add: unit_schema_def city_field_def zip_field_def unit_field_def)
  have m: "zip_field \<in> set (fields' unit_schema)"
    by (simp add: unit_schema_def)
  have u: "defaultValue zip_field = JUndefined"
    by (simp add: zip_field_def)
  have n: "name zip_field = ''zip''"
    by (simp add: zip_field_def)
  have i: "\<not> inherited (name zip_field)"
    by (simp add: n inherited_def)
  have c: "conditional unit_field
             = Some \<lparr> cfield = ''zip'', coperator = Equals, cvalue = JStr [] \<rparr>"
    by (simp add: unit_field_def)
  from C10_fresh_value_map[OF d m i] u n c d m i show ?thesis by simp
qed

subsection \<open>A change of the schema\<close>




subsection \<open>Visibility\<close>








text \<open>What the \<open>contains\<close> branch computes: a falsy target is replaced by the empty string.\<close>

lemma contains_visible:
  assumes "conditional f = Some c" and "coperator c = Contains"
  shows "isFieldVisible fd f =
           str_includes
             (if ToBoolean (get fd (cfield c)) then ToString (get fd (cfield c)) else [])
             (ToString (cvalue c))"
  using assms by (simp add: isFieldVisible_def js_or_def)

text \<open>
  Claim C9: under a contains conditional, isActive is true exactly when the string form of
  the target contains the string form of the comparand, the target being replaced by the
  empty string only when it is unset; a target that is set, such as the number 0 or the
  boolean false, is compared through its string form.

  The evaluator does otherwise on a target that is set and falsy. The quantity field
  starts at the number 0; its string form \<open>0\<close> contains the comparand \<open>0\<close>, yet
  \<open>targetValue || ""\<close> has replaced the 0 by the empty string and the field is hidden.
\<close>

theorem C9_contains_on_number_zero:
  "isFieldVisible (formData (mount gift_schema)) gift_field = False \<and>
   str_includes (ToString (get (formData (mount gift_schema)) ''qty'')) (ToString (JStr ''0''))
     = True"
  by (simp add: mount_def gift_schema_def getDefaultValues_def qty_field_def gift_field_def
      isFieldVisible_def get_def js_or_def)

subsection \<open>Submitting twice\<close>

lemma StringToNumber_21: "StringToNumber ''21'' = Dec 21 0"
  by code_simp

text \<open>The sample state is the one a user reaches by entering 21 and pressing submit.\<close>

lemma in_flight_reachable:
  "handleSubmit RegExp age_schema (handleChange ''age'' (JStr ''21'') (mount age_schema))
     = Inr in_flight"
  apply (simp add: handleSubmit_def age_schema_def mount_def handleChange_def getDefaultValues_def)
  apply (simp add: age_field_def isFieldVisible_def buildZodSchema_def base_schema_def
      number_rule_def message_or_def)
  apply (simp add: object_issues_def get_def StringToNumber_21 num_ge_def num_le_def
      not_empty_def in_flight_def)
  done

text \<open>
  Claim C4, as stated: while a submission is in flight a second submit has no observable
  effect, the external submit collaborator is not invoked a second time, and this is
  enforced by a guard on the state in the core logic, not merely by a disabled control.
  It fails: \<open>handleSubmit\<close> run on the state with a submission pending validates again
  and calls \<open>submitForm\<close> a second time.
\<close>

theorem C4_counterexample:
  "handleSubmit sample_RegExp age_schema in_flight = Inr (in_flight\<lparr> submitCalls := 2 \<rparr>)"
  apply (simp add: handleSubmit_def age_schema_def in_flight_def)
  apply (simp add: age_field_def isFieldVisible_def buildZodSchema_def base_schema_def
      number_rule_def message_or_def)
  apply (simp add: object_issues_def get_def StringToNumber_21 num_ge_def num_le_def
      not_empty_def)
  done

text \<open>
  Claim C4, amended: while a submission is in flight the submit control is rendered
  disabled, and that is the only protection. The handler has no guard on the state: it
  does the same whether or not a submission is pending, and whenever it ends with a
  submission pending it has called the submit collaborator once more.
\<close>

theorem C4_only_the_control_is_disabled:
  "submit_disabled st = isSubmitting st \<and>
   handleSubmit RegExp schema (st\<lparr> isSubmitting := True \<rparr>)
     = handleSubmit RegExp schema (st\<lparr> isSubmitting := False \<rparr>) \<and>
   (\<forall>st'. handleSubmit RegExp schema st = Inr st' \<longrightarrow>
      submitCalls st' = (if isSubmitting st' then submitCalls st + 1 else submitCalls st))"
  by (auto simp: submit_disabled_def handleSubmit_def Let_def split: sum.splits)

theorem C4_only_the_control_is_disabled_witness:
  "submit_disabled in_flight \<and>
   handleSubmit sample_RegExp age_schema in_flight = Inr (in_flight\<lparr> submitCalls := 2 \<rparr>) \<and>
   isSubmitting (in_flight\<lparr> submitCalls := 2 \<rparr>) \<and>
   submitCalls (in_flight\<lparr> submitCalls := 2 \<rparr>) = submitCalls in_flight + 1"
proof -
  have h: "handleSubmit sample_RegExp age_schema in_flight = Inr (in_flight\<lparr> submitCalls := 2 \<rparr>)"
    apply (simp add: handleSubmit_def age_schema_def in_flight_def)
    apply (simp add: age_field_def isFieldVisible_def buildZodSchema_def base_schema_def
        number_rule_def message_or_def)
    apply (simp add: object_issues_def get_def StringToNumber_21 num_ge_def num_le_def
        not_empty_def)
    done
  have i: "isSubmitting in_flight"
    by (simp add: in_flight_def)
  from C4_only_the_control_is_disabled[of in_flight sample_RegExp age_schema] h i
  show ?thesis by simp
qed

section \<open>Properties of export and import\<close>

subsection \<open>Strings\<close>





subsection \<open>White space, separators and numbers\<close>
















subsection \<open>Objects without a repeated key\<close>



subsection \<open>Parsing what was printed\<close>







subsection \<open>Reading what was written\<close>
























subsection \<open>The JSON value of a schema is well formed\<close>














subsection \<open>The integers are numbers that JSON text carries\<close>






















subsection \<open>The round trip\<close>



end
